theory Spec2Isabelle
  imports Main "HOL-Library.Sublist"
begin

section \<open>Strings and arrays of the JavaScript runtime\<close>

text \<open>
  The program is TypeScript running on Node.js. Its strings are modelled as \<^typ>\<open>string\<close>,
  the value \<^verbatim>\<open>undefined\<close> of an optional string as \<^term>\<open>None\<close>.
  Every separator the program splits on (\<^verbatim>\<open>"."\<close> and \<^verbatim>\<open>"x"\<close>) is a single character, so
  \<^verbatim>\<open>String.prototype.split\<close> is modelled for a one-character separator: the result always has
  at least one element, and the empty string splits into one empty piece.
\<close>

fun js_split :: "string \<Rightarrow> char \<Rightarrow> string list" where
  "js_split [] sep = [[]]"
| "js_split (c # cs) sep =
     (if c = sep then [] # js_split cs sep
      else (case js_split cs sep of
              [] \<Rightarrow> [[c]]
            | w # ws \<Rightarrow> (c # w) # ws))"

text \<open>Reading \<^verbatim>\<open>arr[i]\<close>: an index past the end yields \<^verbatim>\<open>undefined\<close>.\<close>

definition arr_at :: "'a list \<Rightarrow> nat \<Rightarrow> 'a option" where
  "arr_at xs i = (if i < length xs then Some (xs ! i) else None)"

text \<open>\<^verbatim>\<open>Array.prototype.includes\<close> on an array of strings, asked for a value that may be
  \<^verbatim>\<open>undefined\<close>.\<close>

fun array_includes :: "string list \<Rightarrow> string option \<Rightarrow> bool" where
  "array_includes [] v = False"
| "array_includes (x # xs) v = (v = Some x \<or> array_includes xs v)"

text \<open>\<^verbatim>\<open>String.prototype.includes\<close>: the search string occurs at some position.\<close>

fun str_includes :: "string \<Rightarrow> string \<Rightarrow> bool" where
  "str_includes [] t = (t = [])"
| "str_includes (c # cs) t = (prefix t (c # cs) \<or> str_includes cs t)"

text \<open>\<^verbatim>\<open>String.prototype.slice(start, end)\<close>, negative indices counting from the end.\<close>

definition js_slice :: "string \<Rightarrow> int \<Rightarrow> int \<Rightarrow> string" where
  "js_slice s b e =
     (let n = int (length s);
          from = (if b < 0 then max (n + b) 0 else min b n);
          to = (if e < 0 then max (n + e) 0 else min e n)
      in take (nat (to - from)) (drop (nat from) s))"

section \<open>The path functions of Node.js\<close>

text \<open>
  \<^verbatim>\<open>basename\<close> and \<^verbatim>\<open>extname\<close> come from \<^verbatim>\<open>node:path\<close>, which is not part of the repository.
  They are modelled after the POSIX implementation of Node.js (\<^verbatim>\<open>lib/path.js\<close>): one scan
  of the path from its last character to its first. The loop counter \<open>Suc i\<close> stands for
  the loop at index \<open>i\<close>; \<^verbatim>\<open>break\<close> returns the state, \<^verbatim>\<open>continue\<close> recurses. (The Windows
  implementation also takes the backslash for a separator; it cuts the extension the
  same way, from the last dot of the last component.)
\<close>

fun basename_loop :: "string \<Rightarrow> nat \<Rightarrow> int \<times> int \<times> bool \<Rightarrow> int \<times> int \<times> bool" where
  "basename_loop p 0 st = st"
| "basename_loop p (Suc i) (start, end', matchedSlash) =
     (if p ! i = CHR ''/'' then
        (if \<not> matchedSlash then (int i + 1, end', matchedSlash)
         else basename_loop p i (start, end', matchedSlash))
      else if end' = - 1 then basename_loop p i (start, int i + 1, False)
      else basename_loop p i (start, end', matchedSlash))"

definition basename :: "string \<Rightarrow> string" where
  "basename p =
     (case basename_loop p (length p) (0, - 1, True) of
        (start, end', matchedSlash) \<Rightarrow> if end' = - 1 then [] else js_slice p start end')"

record ext_state =
  startDot :: int
  startPart :: int
  endPos :: int
  matchedSlash :: bool
  preDotState :: int

fun extname_loop :: "string \<Rightarrow> nat \<Rightarrow> ext_state \<Rightarrow> ext_state" where
  "extname_loop p 0 st = st"
| "extname_loop p (Suc i) st =
     (if p ! i = CHR ''/'' then
        (if \<not> matchedSlash st then st\<lparr>startPart := int i + 1\<rparr>
         else extname_loop p i st)
      else
        (let st1 = (if endPos st = - 1 then st\<lparr>matchedSlash := False, endPos := int i + 1\<rparr> else st);
             st2 = (if p ! i = CHR ''.'' then
                      (if startDot st1 = - 1 then st1\<lparr>startDot := int i\<rparr>
                       else if preDotState st1 \<noteq> 1 then st1\<lparr>preDotState := 1\<rparr>
                       else st1)
                    else if startDot st1 \<noteq> - 1 then st1\<lparr>preDotState := - 1\<rparr>
                    else st1)
         in extname_loop p i st2))"

definition extname :: "string \<Rightarrow> string" where
  "extname p =
     (let st = extname_loop p (length p)
                 \<lparr>startDot = - 1, startPart = 0, endPos = - 1, matchedSlash = True, preDotState = 0\<rparr>
      in if startDot st = - 1 \<or> endPos st = - 1 \<or> preDotState st = 0 \<or>
            (preDotState st = 1 \<and> startDot st = endPos st - 1 \<and> startDot st = startPart st + 1)
         then []
         else js_slice p (startDot st) (endPos st))"

section \<open>The classifier and the output name\<close>

definition supported :: "string list" where
  "supported = [''webp'', ''png'', ''jpeg'', ''jpg'', ''avif'']"

definition isImageType :: "string \<Rightarrow> bool" where
  "isImageType filepath =
     (let name' = basename filepath;
          ext' = extname filepath;
          type' = arr_at (js_split name' CHR ''.'') 1
      in array_includes supported type' \<or> array_includes supported (Some ext'))"

definition getFileName :: "string \<Rightarrow> string \<Rightarrow> string" where
  "getFileName file fmt =
     (case arr_at (js_split file CHR ''.'') 0 of
        Some first \<Rightarrow> first @ ''.'' @ fmt
      | None \<Rightarrow> ''undefined'' @ ''.'' @ fmt)"

section \<open>Data model\<close>

text \<open>
  \<^verbatim>\<open>FileInfo\<close> and \<^verbatim>\<open>FormatOpts\<close> are the interfaces of \<^verbatim>\<open>utils.ts\<close>. The format is kept as
  the string it is at run time (the \<^verbatim>\<open>switch\<close> of \<^verbatim>\<open>getSharpConverter\<close> has a default branch
  for every string that is not one of its four cases). JavaScript numbers are the type
  parameter \<^typ>\<open>'n\<close>, error values the type parameter \<^typ>\<open>'e\<close>. A \<^verbatim>\<open>Dirent\<close> is what
  \<^verbatim>\<open>readdir(..., {withFileTypes: true})\<close> yields for one directory entry.
\<close>

record FileInfo =
  path :: string
  name :: string
  ext :: string

record 'n FormatOpts =
  format :: string
  resize :: bool
  quality :: 'n
  dimensions :: string

record Dirent =
  dirent_name :: string
  parentPath :: string
  isFile :: bool

text \<open>
  A converter of the image library is the chain of calls made on a fresh \<^verbatim>\<open>sharp()\<close>
  instance, in call order; \<^verbatim>\<open>{ quality }\<close> is the one argument of a codec call, and
  \<^verbatim>\<open>{ width, height, fit }\<close> the three of \<^verbatim>\<open>resize\<close>.
\<close>

datatype 'n sharp_op =
    ToFormat string
  | Webp 'n
  | Avif 'n
  | Jpeg 'n
  | Png 'n
  | Resize 'n 'n string

type_synonym 'n Sharp = "'n sharp_op list"

text \<open>The settled state of a promise, and the ways a top-level function of the CLI ends.\<close>

datatype ('e, 'a) promise = Fulfilled 'a | Rejected 'e

datatype ('e, 'a) run = Returns 'a | Rejects 'e | Exit nat | Pending

text \<open>What the program does to the outside world, in the order it does it.\<close>

datatype event =
    ReadDir string
  | Access string
  | Mkdir string
  | Convert string string
  | Log string

section \<open>The environment\<close>

text \<open>
  Everything the program calls and the repository does not define is a field of the
  environment: the file system (\<^verbatim>\<open>readdir\<close>, \<^verbatim>\<open>access\<close>, \<^verbatim>\<open>mkdir\<close>, the two stream
  constructors), \<^verbatim>\<open>pipeline\<close>, \<^verbatim>\<open>join\<close> and \<^verbatim>\<open>resolve\<close> of \<^verbatim>\<open>node:path\<close>, the conversion
  \<^verbatim>\<open>Number(s)\<close> of a string, the number \<^verbatim>\<open>100\<close>, and the parameter validation of the image
  library. A field of type \<^typ>\<open>'e option\<close> answers with the error the call throws or
  rejects with, \<^term>\<open>None\<close> when it succeeds. A stream is identified by the path it
  was opened on, and a pipeline is taken to settle. The theorems hold for every
  environment.
\<close>

record ('e, 'n) env =
  readdir :: "string \<Rightarrow> 'e + Dirent list"
  access :: "string \<Rightarrow> 'e option"
  mkdir :: "string \<Rightarrow> 'e option"
  createReadStream :: "string \<Rightarrow> 'e option"
  createWriteStream :: "string \<Rightarrow> 'e option"
  pipeline :: "string \<Rightarrow> 'n Sharp \<Rightarrow> string \<Rightarrow> 'e option"
  path_join :: "string \<Rightarrow> string \<Rightarrow> string"
  path_resolve :: "string \<Rightarrow> string"
  Number :: "string \<Rightarrow> 'n"
  num100 :: 'n
  sharp_throws :: "'n sharp_op \<Rightarrow> 'e option"

section \<open>utils.ts\<close>

definition createDir :: "('e, 'n) env \<Rightarrow> string \<Rightarrow> event list \<times> 'e option" where
  "createDir env dirPath =
     (let directory = path_resolve env dirPath
      in case access env directory of
           None \<Rightarrow> ([Access directory], None)
         | Some error \<Rightarrow> ([Access directory, Mkdir directory], mkdir env directory))"

definition getImagesFromDir :: "('e, 'n) env \<Rightarrow> string \<Rightarrow> event list \<times> ('e + FileInfo list)" where
  "getImagesFromDir env directory =
     ([ReadDir directory],
      case readdir env directory of
        Inl e \<Rightarrow> Inl e
      | Inr contents \<Rightarrow>
          (let images = filter (\<lambda>item. isFile item \<and>
                                 isImageType (path_join env (parentPath item) (dirent_name item)))
                          contents
           in Inr (map (\<lambda>item. \<lparr>path = path_join env (parentPath item) (dirent_name item),
                                 name = dirent_name item,
                                 ext = extname (dirent_name item)\<rparr>) images)))"

text \<open>\<^verbatim>\<open>sharp()\<close> and one chained call on an instance: the call throws what the library's
  validation says, or returns the instance with the call recorded.\<close>

definition sharp :: "'n Sharp" where
  "sharp = []"

definition sharp_call :: "('e, 'n) env \<Rightarrow> 'n Sharp \<Rightarrow> 'n sharp_op \<Rightarrow> 'e + 'n Sharp" where
  "sharp_call env s c = (case sharp_throws env c of Some e \<Rightarrow> Inl e | None \<Rightarrow> Inr (s @ [c]))"

text \<open>\<^verbatim>\<open>Number(str || 100)\<close>: an absent or empty string is falsy.\<close>

definition number_or_100 :: "('e, 'n) env \<Rightarrow> string option \<Rightarrow> 'n" where
  "number_or_100 env str =
     (case str of
        None \<Rightarrow> num100 env
      | Some s \<Rightarrow> if s = [] then num100 env else Number env s)"

definition getSharpConverter :: "('e, 'n) env \<Rightarrow> 'n FormatOpts \<Rightarrow> 'e + 'n Sharp" where
  "getSharpConverter env options =
     (let parts = js_split (dimensions options) CHR ''x'';
          strWidth = arr_at parts 0;
          strHeight = arr_at parts 1;
          width = number_or_100 env strWidth;
          height = number_or_100 env strHeight
      in if format options = ''webp'' then
           (if \<not> resize options then sharp_call env sharp (ToFormat ''webp'')
            else case sharp_call env sharp (Webp (quality options)) of
                   Inl e \<Rightarrow> Inl e
                 | Inr s \<Rightarrow> sharp_call env s (Resize width height ''contain''))
         else if format options = ''avif'' then
           (if \<not> resize options then sharp_call env sharp (ToFormat ''avif'')
            else case sharp_call env sharp (Avif (quality options)) of
                   Inl e \<Rightarrow> Inl e
                 | Inr s \<Rightarrow> sharp_call env s (Resize width height ''contain''))
         else if format options = ''jpeg'' then
           (if \<not> resize options then sharp_call env sharp (ToFormat ''jpeg'')
            else case sharp_call env sharp (Jpeg (quality options)) of
                   Inl e \<Rightarrow> Inl e
                 | Inr s \<Rightarrow> sharp_call env s (Resize width height ''contain''))
         else if format options = ''png'' then
           (if \<not> resize options then sharp_call env sharp (ToFormat ''png'')
            else case sharp_call env sharp (Png (quality options)) of
                   Inl e \<Rightarrow> Inl e
                 | Inr s \<Rightarrow> sharp_call env s (Resize width height ''contain''))
         else sharp_call env sharp (ToFormat (format options)))"

text \<open>
  \<^verbatim>\<open>convertImage\<close> is an \<^verbatim>\<open>async\<close> function: what it throws rejects its promise. The two
  streams and the converter are built before the \<^verbatim>\<open>try\<close> block; only \<^verbatim>\<open>await pipeline(...)\<close>
  is inside it, and its \<^verbatim>\<open>catch\<close> returns the error. Falling off the end returns
  \<^verbatim>\<open>undefined\<close>, here \<^term>\<open>None\<close>.
\<close>

definition convertImage ::
  "('e, 'n) env \<Rightarrow> string \<Rightarrow> string \<Rightarrow> 'n FormatOpts \<Rightarrow> event list \<times> ('e, 'e option) promise" where
  "convertImage env inputFile outputFile options =
     ([Convert inputFile outputFile],
      case createReadStream env inputFile of
        Some e \<Rightarrow> Rejected e
      | None \<Rightarrow>
          (case createWriteStream env outputFile of
             Some e \<Rightarrow> Rejected e
           | None \<Rightarrow>
               (case getSharpConverter env options of
                  Inl e \<Rightarrow> Rejected e
                | Inr duplex \<Rightarrow>
                    (case pipeline env inputFile duplex outputFile of
                       Some error \<Rightarrow> Fulfilled (Some error)
                     | None \<Rightarrow> Fulfilled None))))"

section \<open>Promise.all\<close>

text \<open>
  \<^verbatim>\<open>Promise.all\<close> as ECMAScript specifies it: a list of values with one slot per promise,
  a counter of the promises still open, and one reaction per promise. A fulfilled
  promise writes its value into the slot of its own index and resolves the result
  when the counter reaches zero; a rejected one rejects the result. \<open>sched\<close> is the order
  in which the promises settle (each index at most once); when it ends before every
  promise has settled, the result stays pending (\<^term>\<open>None\<close>).
\<close>

fun all_steps ::
  "nat list \<Rightarrow> ('e, 'a) promise list \<Rightarrow> 'a list \<Rightarrow> nat \<Rightarrow> ('e, 'a list) promise option" where
  "all_steps [] ps vals remaining = None"
| "all_steps (k # sched) ps vals remaining =
     (if k < length ps then
        (case ps ! k of
           Rejected e \<Rightarrow> Some (Rejected e)
         | Fulfilled v \<Rightarrow>
             if remaining - 1 = 0 then Some (Fulfilled (vals[k := v]))
             else all_steps sched ps (vals[k := v]) (remaining - 1))
      else all_steps sched ps vals remaining)"

definition promise_all ::
  "'a \<Rightarrow> nat list \<Rightarrow> ('e, 'a) promise list \<Rightarrow> ('e, 'a list) promise option" where
  "promise_all undef sched ps =
     (if ps = [] then Some (Fulfilled [])
      else all_steps sched ps (replicate (length ps) undef) (length ps))"

section \<open>converty.ts\<close>

text \<open>\<^verbatim>\<open>chalk\<close> wraps a text in terminal colour codes (none when colour is off); the model
  keeps the text.\<close>

definition chalk_red_bold :: "string \<Rightarrow> string" where
  "chalk_red_bold s = s"

text \<open>
  The orchestrator of the TypeScript source. The two \<^verbatim>\<open>chalk.red.bold(...)\<close> statements of
  the empty branch build a string and drop it: nothing is passed to \<^verbatim>\<open>log\<close>.
  \<^verbatim>\<open>process.exit(0)\<close> ends the run.
\<close>

definition convertImages ::
  "('e, 'n) env \<Rightarrow> nat list \<Rightarrow> string \<Rightarrow> string \<Rightarrow> 'n FormatOpts \<Rightarrow>
     event list \<times> ('e, 'e option list) run" where
  "convertImages env sched inputDir outputDir options =
     (case getImagesFromDir env inputDir of
        (tr1, Inl e) \<Rightarrow> (tr1, Rejects e)
      | (tr1, Inr allImages) \<Rightarrow>
          (let imagesInDir = filter (\<lambda>image. \<not> str_includes (name image) (format options)) allImages
           in if imagesInDir = [] then
                (let dropped1 = chalk_red_bold (''No images in directory: '' @ [CHR 0x0A] @ inputDir);
                     dropped2 = chalk_red_bold ''Exiting.''
                 in (tr1, Exit 0))
              else
                (case createDir env outputDir of
                   (tr2, Some e) \<Rightarrow> (tr1 @ tr2, Rejects e)
                 | (tr2, None) \<Rightarrow>
                     (let promises = map (\<lambda>image.
                            let inputFile = path_resolve env (path image);
                                filename = getFileName (name image) (format options);
                                outputFile = path_join env outputDir filename
                            in convertImage env inputFile outputFile options) imagesInDir
                      in (tr1 @ tr2 @ concat (map fst promises),
                          case promise_all None sched (map snd promises) of
                            None \<Rightarrow> Pending
                          | Some (Rejected e) \<Rightarrow> Rejects e
                          | Some (Fulfilled allResults) \<Rightarrow> Returns allResults)))))"

text \<open>
  The orchestrator of the compiled build kept beside the source (\<^verbatim>\<open>converty.mjs\<close>): it
  reads the output directory, and has no \<^verbatim>\<open>createDir\<close>.
\<close>

definition convertImages_mjs ::
  "('e, 'n) env \<Rightarrow> nat list \<Rightarrow> string \<Rightarrow> string \<Rightarrow> 'n FormatOpts \<Rightarrow>
     event list \<times> ('e, 'e option list) run" where
  "convertImages_mjs env sched inputDir outputDir options =
     (case getImagesFromDir env outputDir of
        (tr1, Inl e) \<Rightarrow> (tr1, Rejects e)
      | (tr1, Inr allImages) \<Rightarrow>
          (let imagesInDir = filter (\<lambda>image. \<not> str_includes (name image) (format options)) allImages
           in if imagesInDir = [] then
                (let dropped1 = chalk_red_bold (''No images in directory: '' @ [CHR 0x0A] @ inputDir);
                     dropped2 = chalk_red_bold ''Exiting.''
                 in (tr1, Exit 0))
              else
                (let promises = map (\<lambda>image.
                       let inputFile = path_resolve env (path image);
                           filename = getFileName (name image) (format options);
                           outputFile = path_join env outputDir filename
                       in convertImage env inputFile outputFile options) imagesInDir
                 in (tr1 @ concat (map fst promises),
                     case promise_all None sched (map snd promises) of
                       None \<Rightarrow> Pending
                     | Some (Rejected e) \<Rightarrow> Rejects e
                     | Some (Fulfilled allResults) \<Rightarrow> Returns allResults))))"

text \<open>The task both orchestrators build for one image: the body of the callback
  they map over the filtered list.\<close>

abbreviation conversion ::
  "('e, 'n) env \<Rightarrow> string \<Rightarrow> 'n FormatOpts \<Rightarrow> FileInfo \<Rightarrow> event list \<times> ('e, 'e option) promise" where
  "conversion env outputDir options img \<equiv>
     convertImage env (path_resolve env (path img))
       (path_join env outputDir (getFileName (name img) (format options))) options"

text \<open>
  The answers of the prompt session. \<^verbatim>\<open>promptUser\<close> is given what the two
  \<^verbatim>\<open>inquirer.prompt\<close> promises settle to; a rejection reason is an error object, so the
  \<^verbatim>\<open>if (err)\<close> of the \<^verbatim>\<open>catch\<close> handler holds, \<^verbatim>\<open>Aborting.\<close> is logged and the process exits
  with code 1. \<^verbatim>\<open>!outputPath\<close> holds of the empty string only.
\<close>

record BaseAnswers =
  inputPath :: string
  outputPath :: string
  format_ans :: string
  resize_ans :: bool

record ExtraAnswers =
  quality_extra :: string
  dimensions_extra :: string

record Answers = BaseAnswers +
  quality_ans :: string
  dimensions_ans :: string

definition promptUser ::
  "('e, BaseAnswers) promise \<Rightarrow> ('e, ExtraAnswers) promise \<Rightarrow> event list \<times> ('e, Answers) run" where
  "promptUser basePrompt extraPrompt =
     (case basePrompt of
        Rejected err \<Rightarrow> ([Log (chalk_red_bold ''Aborting.'')], Exit 1)
      | Fulfilled baseAnswers \<Rightarrow>
          (let output = (if outputPath baseAnswers = [] then inputPath baseAnswers
                         else outputPath baseAnswers)
           in if resize_ans baseAnswers then
                (case extraPrompt of
                   Rejected err \<Rightarrow> ([Log (chalk_red_bold ''Aborting.'')], Exit 1)
                 | Fulfilled extraAnswers \<Rightarrow>
                     ([], Returns \<lparr>inputPath = inputPath baseAnswers, outputPath = output,
                                   format_ans = format_ans baseAnswers,
                                   resize_ans = resize_ans baseAnswers,
                                   quality_ans = quality_extra extraAnswers,
                                   dimensions_ans = dimensions_extra extraAnswers\<rparr>))
              else
                ([], Returns \<lparr>inputPath = inputPath baseAnswers, outputPath = output,
                              format_ans = format_ans baseAnswers,
                              resize_ans = resize_ans baseAnswers,
                              quality_ans = ''100%'', dimensions_ans = ''None''\<rparr>)))"

section \<open>Reading a trace\<close>

text \<open>The conversions a run attempted: the input and output file of each call of
  \<^verbatim>\<open>convertImage\<close>, in call order.\<close>

fun attempted :: "event list \<Rightarrow> (string \<times> string) list" where
  "attempted [] = []"
| "attempted (Convert i ou # es) = (i, ou) # attempted es"
| "attempted (ev # es) = attempted es"

text \<open>What a run printed with \<^verbatim>\<open>log\<close>.\<close>

fun logged :: "event list \<Rightarrow> string list" where
  "logged [] = []"
| "logged (Log s # es) = s # logged es"
| "logged (ev # es) = logged es"

text \<open>The invariant of the scan of \<^verbatim>\<open>extname\<close> with \<open>n\<close> characters left: once set, the
  end lies beyond the characters left and inside the path, and the first dot lies
  before the end, at a dot.\<close>

definition ext_inv :: "string \<Rightarrow> nat \<Rightarrow> ext_state \<Rightarrow> bool" where
  "ext_inv p n st =
     ((endPos st = - 1 \<or> (int n < endPos st \<and> endPos st \<le> int (length p))) \<and>
      (startDot st = - 1 \<or>
         (0 \<le> startDot st \<and> startDot st < endPos st \<and> p ! nat (startDot st) = CHR ''.'')))"

section \<open>A sample environment\<close>

text \<open>
  One environment, to run the model on concrete inputs. Its numbers are the integers
  and \<^verbatim>\<open>NaN\<close>; \<^verbatim>\<open>Number\<close> reads a string of decimal digits and answers \<^verbatim>\<open>NaN\<close> for a string
  with any other character (as JavaScript does for \<^verbatim>\<open>"None"\<close>). The validation is the one
  the image library applies to these calls: a quality is an integer from 1 to 100
  (from 0 for PNG), a width and a height are positive integers. The working directory
  is \<^verbatim>\<open>/home/user\<close>; \<^verbatim>\<open>photos\<close> holds six entries, \<^verbatim>\<open>pngs\<close> one, \<^verbatim>\<open>empty\<close> none; \<^verbatim>\<open>out\<close> does
  not exist yet and can be created; \<^verbatim>\<open>bad.webp\<close> is not an image the codec can read.
\<close>

datatype jsnum = NaN | Finite int

definition is_digit :: "char \<Rightarrow> bool" where
  "is_digit c = (c \<in> set ''0123456789'')"

definition sample_Number :: "string \<Rightarrow> jsnum" where
  "sample_Number s =
     (if s \<noteq> [] \<and> list_all is_digit s
      then Finite (foldl (\<lambda>a c. 10 * a + (of_char c - 48)) 0 s)
      else NaN)"

fun positive_integer :: "jsnum \<Rightarrow> bool" where
  "positive_integer NaN = False"
| "positive_integer (Finite i) = (0 < i)"

fun integer_between :: "int \<Rightarrow> int \<Rightarrow> jsnum \<Rightarrow> bool" where
  "integer_between lo hi NaN = False"
| "integer_between lo hi (Finite i) = (lo \<le> i \<and> i \<le> hi)"

fun sample_sharp_throws :: "jsnum sharp_op \<Rightarrow> string option" where
  "sample_sharp_throws (ToFormat f) =
     (if f \<in> set [''jpeg'', ''jpg'', ''png'', ''webp'', ''avif'', ''tiff'', ''gif'', ''heif'']
      then None else Some (''Unsupported output format '' @ f))"
| "sample_sharp_throws (Webp q) =
     (if integer_between 1 100 q then None
      else Some ''Expected integer between 1 and 100 for quality'')"
| "sample_sharp_throws (Avif q) =
     (if integer_between 1 100 q then None
      else Some ''Expected integer between 1 and 100 for quality'')"
| "sample_sharp_throws (Jpeg q) =
     (if integer_between 1 100 q then None
      else Some ''Expected integer between 1 and 100 for quality'')"
| "sample_sharp_throws (Png q) =
     (if integer_between 0 100 q then None
      else Some ''Expected integer between 0 and 100 for quality'')"
| "sample_sharp_throws (Resize w h fit) =
     (if \<not> positive_integer w then Some ''Expected positive integer for width''
      else if \<not> positive_integer h then Some ''Expected positive integer for height''
      else None)"

definition sample_readdir :: "string \<Rightarrow> string + Dirent list" where
  "sample_readdir d =
     (if d = ''photos'' then
        Inr [\<lparr>dirent_name = ''a.jpg'', parentPath = ''photos'', isFile = True\<rparr>,
             \<lparr>dirent_name = ''b.png'', parentPath = ''photos'', isFile = True\<rparr>,
             \<lparr>dirent_name = ''notes.txt'', parentPath = ''photos'', isFile = True\<rparr>,
             \<lparr>dirent_name = ''sub.jpg'', parentPath = ''photos'', isFile = False\<rparr>,
             \<lparr>dirent_name = ''png_source.jpg'', parentPath = ''photos'', isFile = True\<rparr>,
             \<lparr>dirent_name = ''bad.webp'', parentPath = ''photos'', isFile = True\<rparr>]
      else if d = ''pngs'' then
        Inr [\<lparr>dirent_name = ''c.png'', parentPath = ''pngs'', isFile = True\<rparr>]
      else if d = ''empty'' then Inr []
      else Inl (''ENOENT: no such file or directory, scandir '' @ d))"

definition sample_env :: "(string, jsnum) env" where
  "sample_env =
     \<lparr>readdir = sample_readdir,
      access = (\<lambda>d. if d = ''/home/user/out'' then Some ''ENOENT: no such file or directory''
                    else None),
      mkdir = (\<lambda>d. None),
      createReadStream = (\<lambda>f. None),
      createWriteStream = (\<lambda>f. None),
      pipeline = (\<lambda>i duplex ou. if i = ''/home/user/photos/bad.webp''
                                  then Some ''Input file contains unsupported image format''
                                  else None),
      path_join = (\<lambda>d f. d @ ''/'' @ f),
      path_resolve = (\<lambda>f. ''/home/user/'' @ f),
      Number = sample_Number,
      num100 = Finite 100,
      sharp_throws = sample_sharp_throws\<rparr>"


section \<open>Lemmas on strings and paths\<close>

lemma js_split_nonempty: "js_split s sep \<noteq> []"
  by (induction s) (auto split: list.splits)

lemma hd_js_split: "hd (js_split s sep) = takeWhile (\<lambda>c. c \<noteq> sep) s"
  by (induction s) (auto split: list.splits simp: js_split_nonempty)

lemma arr_at_0_js_split: "arr_at (js_split s sep) 0 = Some (takeWhile (\<lambda>c. c \<noteq> sep) s)"
  using js_split_nonempty [of s sep] hd_js_split [of s sep]
  by (cases "js_split s sep") (auto simp: arr_at_def)

lemma array_includes_set: "array_includes xs v = (\<exists>x. v = Some x \<and> x \<in> set xs)"
  by (induction xs) auto

lemma str_includes_sublist: "str_includes s t = sublist t s"
  by (induction s) (auto simp: sublist_Cons_right)

lemma extname_loop_inv:
  "n \<le> length p \<Longrightarrow> ext_inv p n st \<Longrightarrow> ext_inv p 0 (extname_loop p n st)"
proof (induction n arbitrary: st)
  case 0
  then show ?case by simp
next
  case (Suc i)
  have i: "i \<le> length p" "i < length p" using Suc.prems(1) by auto
  show ?case
  proof (cases "p ! i = CHR ''/''")
    case True
    show ?thesis
    proof (cases "matchedSlash st")
      case True
      have "ext_inv p i st" using Suc.prems(2) by (auto simp: ext_inv_def)
      then show ?thesis using \<open>p ! i = CHR ''/''\<close> True Suc.IH [OF i(1)] by simp
    next
      case False
      then show ?thesis using \<open>p ! i = CHR ''/''\<close> Suc.prems(2) by (auto simp: ext_inv_def)
    qed
  next
    case False
    define st1 where "st1 = (if endPos st = - 1 then st\<lparr>matchedSlash := False, endPos := int i + 1\<rparr> else st)"
    define st2 where "st2 = (if p ! i = CHR ''.'' then
                      (if startDot st1 = - 1 then st1\<lparr>startDot := int i\<rparr>
                       else if preDotState st1 \<noteq> 1 then st1\<lparr>preDotState := 1\<rparr>
                       else st1)
                    else if startDot st1 \<noteq> - 1 then st1\<lparr>preDotState := - 1\<rparr>
                    else st1)"
    have 1: "ext_inv p i st1 \<and> endPos st1 \<noteq> - 1"
      using Suc.prems(2) i by (auto simp: ext_inv_def st1_def)
    have 2: "ext_inv p i st2"
      using 1 i by (auto simp: ext_inv_def st2_def)
    have "extname_loop p (Suc i) st = extname_loop p i st2"
      using False by (simp add: st1_def st2_def Let_def)
    then show ?thesis using Suc.IH [OF i(1) 2] by simp
  qed
qed

lemma extname_dot: "extname p = [] \<or> (\<exists>r. extname p = CHR ''.'' # r)"
proof -
  define st0 where "st0 = \<lparr>startDot = - 1, startPart = 0, endPos = - 1, matchedSlash = True, preDotState = 0\<rparr>"
  define st where "st = extname_loop p (length p) st0"
  have "ext_inv p (length p) st0" by (simp add: ext_inv_def st0_def)
  then have inv: "ext_inv p 0 st" unfolding st_def by (rule extname_loop_inv [OF le_refl])
  show ?thesis
  proof (cases "startDot st = - 1 \<or> endPos st = - 1")
    case True
    then show ?thesis by (auto simp: extname_def st_def [symmetric] st0_def [symmetric] Let_def)
  next
    case False
    then have b: "0 \<le> startDot st" "startDot st < endPos st" "endPos st \<le> int (length p)"
      "p ! nat (startDot st) = CHR ''.''"
      using inv by (auto simp: ext_inv_def)
    have "js_slice p (startDot st) (endPos st) = take (nat (endPos st - startDot st)) (drop (nat (startDot st)) p)"
      using b by (simp add: js_slice_def Let_def min_def)
    also have "\<dots> = CHR ''.'' # take (nat (endPos st - startDot st) - 1) (drop (Suc (nat (startDot st))) p)"
    proof -
      have "nat (startDot st) < length p" using b by linarith
      then have "drop (nat (startDot st)) p = p ! nat (startDot st) # drop (Suc (nat (startDot st))) p"
        by (simp add: Cons_nth_drop_Suc)
      moreover have "nat (endPos st - startDot st) = Suc (nat (endPos st - startDot st) - 1)"
        using b by linarith
      ultimately show ?thesis using b(4) by (metis take_Suc_Cons)
    qed
    finally have "\<exists>r. js_slice p (startDot st) (endPos st) = CHR ''.'' # r" by blast
    then show ?thesis by (auto simp: extname_def st_def [symmetric] st0_def [symmetric] Let_def)
  qed
qed

lemma extname_not_supported: "\<not> array_includes supported (Some (extname p))"
  using extname_dot [of p] by (auto simp: supported_def)

section \<open>Lemmas on Promise.all\<close>

text \<open>When every promise is fulfilled and every one settles, in whatever order, the
  result is fulfilled with the values in the order of the promises.\<close>

lemma all_steps_fulfilled:
  assumes "distinct sched" "set sched \<subseteq> {..<length ps}" "sched \<noteq> []"
    and "remaining = length sched"
    and "length vals = length ps" "length vs = length ps"
    and "\<forall>k<length ps. ps ! k = Fulfilled (vs ! k)"
    and "\<forall>k<length ps. k \<notin> set sched \<longrightarrow> vals ! k = vs ! k"
  shows "all_steps sched ps vals remaining = Some (Fulfilled vs)"
  using assms
proof (induction sched arbitrary: vals remaining)
  case Nil
  then show ?case by simp
next
  case (Cons k sched)
  have k: "k < length ps" using Cons.prems(2) by simp
  have pk: "ps ! k = Fulfilled (vs ! k)" using Cons.prems(7) k by simp
  let ?vals = "vals[k := vs ! k]"
  have upd: "\<forall>j<length ps. j \<notin> set sched \<longrightarrow> ?vals ! j = vs ! j"
  proof (intro allI impI)
    fix j assume j: "j < length ps" "j \<notin> set sched"
    show "?vals ! j = vs ! j"
    proof (cases "j = k")
      case True
      then show ?thesis using k Cons.prems(5) by simp
    next
      case False
      then show ?thesis using j Cons.prems(8) by simp
    qed
  qed
  show ?case
  proof (cases "sched = []")
    case True
    have "?vals = vs"
    proof (rule nth_equalityI)
      show "length ?vals = length vs" using Cons.prems(5,6) by simp
    next
      fix j assume "j < length ?vals"
      then have "j < length ps" using Cons.prems(5) by simp
      then show "?vals ! j = vs ! j" using upd True by simp
    qed
    then show ?thesis using True k pk Cons.prems(4) by simp
  next
    case False
    have "all_steps sched ps ?vals (length sched) = Some (Fulfilled vs)"
    proof (rule Cons.IH)
      show "distinct sched" using Cons.prems(1) by simp
      show "set sched \<subseteq> {..<length ps}" using Cons.prems(2) by simp
      show "sched \<noteq> []" by (rule False)
      show "length sched = length sched" by simp
      show "length ?vals = length ps" using Cons.prems(5) by simp
      show "length vs = length ps" by (rule Cons.prems(6))
      show "\<forall>k<length ps. ps ! k = Fulfilled (vs ! k)" by (rule Cons.prems(7))
      show "\<forall>j<length ps. j \<notin> set sched \<longrightarrow> ?vals ! j = vs ! j" by (rule upd)
    qed
    then show ?thesis using False k pk Cons.prems(4) by simp
  qed
qed

lemma promise_all_fulfilled:
  assumes "distinct sched" "set sched = {..<length ps}"
    and "length vs = length ps"
    and "\<forall>k<length ps. ps ! k = Fulfilled (vs ! k)"
  shows "promise_all undef sched ps = Some (Fulfilled vs)"
proof (cases "ps = []")
  case True
  then show ?thesis using assms(3) by (simp add: promise_all_def)
next
  case False
  have 1: "set sched \<subseteq> {..<length ps}"
    using assms(2) by simp
  have "0 < length ps"
    using False by simp
  then have "0 \<in> set sched"
    unfolding assms(2) by simp
  then have 2: "sched \<noteq> []"
    by (cases sched) simp_all
  have "card (set sched) = length sched"
    using assms(1) by (rule distinct_card)
  then have 3: "length ps = length sched"
    unfolding assms(2) by simp
  have 4: "length (replicate (length ps) undef) = length ps"
    by simp
  have 5: "\<forall>k<length ps. k \<notin> set sched \<longrightarrow> replicate (length ps) undef ! k = vs ! k"
    unfolding assms(2) by simp
  have "all_steps sched ps (replicate (length ps) undef) (length ps) = Some (Fulfilled vs)"
    by (rule all_steps_fulfilled [OF assms(1) 1 2 3 4 assms(3) assms(4) 5])
  then show ?thesis using False by (simp add: promise_all_def)
qed

text \<open>When one promise is rejected and every one settles, the result is rejected.\<close>

lemma all_steps_rejected:
  assumes "j \<in> set sched" and "set sched \<subseteq> {..<length ps}" and "ps ! j = Rejected e"
    and "remaining = length sched"
  shows "\<exists>e'. all_steps sched ps vals remaining = Some (Rejected e')"
  using assms
proof (induction sched arbitrary: vals remaining)
  case Nil
  then show ?case by simp
next
  case (Cons k sched)
  have k: "k < length ps" using Cons.prems(2) by simp
  show ?case
  proof (cases "ps ! k")
    case (Rejected e')
    then show ?thesis using k by simp
  next
    case (Fulfilled v)
    then have "j \<noteq> k" using Cons.prems(3) by auto
    then have j: "j \<in> set sched" using Cons.prems(1) by simp
    then have "sched \<noteq> []" by (cases sched) simp_all
    then have r: "remaining - 1 \<noteq> 0" "remaining - 1 = length sched"
      using Cons.prems(4) by simp_all
    have s: "set sched \<subseteq> {..<length ps}" using Cons.prems(2) by simp
    show ?thesis
      using Cons.IH [OF j s Cons.prems(3) r(2)] k Fulfilled r(1) by simp
  qed
qed

lemma promise_all_rejected:
  assumes "distinct sched" and "set sched = {..<length ps}"
    and "j < length ps" and "ps ! j = Rejected e"
  shows "\<exists>e'. promise_all undef sched ps = Some (Rejected e')"
proof -
  have ps: "ps \<noteq> []" using assms(3) by (cases ps) simp_all
  have j: "j \<in> set sched" unfolding assms(2) using assms(3) by simp
  have s: "set sched \<subseteq> {..<length ps}" unfolding assms(2) by simp
  have "card (set sched) = length sched"
    using assms(1) by (rule distinct_card)
  then have l: "length ps = length sched"
    unfolding assms(2) by simp
  show ?thesis
    using all_steps_rejected [OF j s assms(4) l] ps by (simp add: promise_all_def)
qed

section \<open>Lemmas on the sample environment\<close>

lemma sample_env_fields:
  "readdir sample_env = sample_readdir"
  "access sample_env d = (if d = ''/home/user/out'' then Some ''ENOENT: no such file or directory'' else None)"
  "mkdir sample_env d = None"
  "createReadStream sample_env f = None"
  "createWriteStream sample_env f = None"
  "pipeline sample_env i duplex ou =
     (if i = ''/home/user/photos/bad.webp''
      then Some ''Input file contains unsupported image format'' else None)"
  "path_join sample_env d f = d @ ''/'' @ f"
  "path_resolve sample_env f = ''/home/user/'' @ f"
  "Number sample_env = sample_Number"
  "num100 sample_env = Finite 100"
  "sharp_throws sample_env = sample_sharp_throws"
  by (simp_all add: sample_env_def)

section \<open>Lemmas on traces and on the orchestrators\<close>


lemma attempted_Convert_map:
  "attempted (map (\<lambda>x. Convert (f x) (g x)) xs) = map (\<lambda>x. (f x, g x)) xs"
  by (induction xs) auto

lemma logged_append: "logged (xs @ ys) = logged xs @ logged ys"
  by (induction xs rule: logged.induct) auto

lemma logged_Convert_map: "logged (map (\<lambda>x. Convert (f x) (g x)) xs) = []"
  by (induction xs) auto

lemma createDir_trace:
  "attempted (fst (createDir env d)) = [] \<and> logged (fst (createDir env d)) = []"
  by (simp add: createDir_def Let_def split: option.splits)

lemma fst_getImagesFromDir: "fst (getImagesFromDir env d) = [ReadDir d]"
  by (simp add: getImagesFromDir_def)

lemma concat_fst_convertImage:
  "concat (map (\<lambda>image. fst (convertImage env (f image) (g image) options)) xs) =
     map (\<lambda>image. Convert (f image) (g image)) xs"
  by (induction xs) (auto simp: convertImage_def)

text \<open>The two ways the orchestrator of the source gets past the scan: with images left
  after the filter and the output directory ensured, and with none left.\<close>

lemma convertImages_nonempty:
  assumes "snd (getImagesFromDir env inputDir) = Inr allImages"
    and "filter (\<lambda>image. \<not> str_includes (name image) (format options)) allImages = imagesInDir"
    and "imagesInDir \<noteq> []"
    and "snd (createDir env outputDir) = None"
  shows "convertImages env sched inputDir outputDir options =
           (ReadDir inputDir # fst (createDir env outputDir) @
              map (\<lambda>image. Convert (path_resolve env (path image))
                     (path_join env outputDir (getFileName (name image) (format options)))) imagesInDir,
            case promise_all None sched (map (\<lambda>image. snd (conversion env outputDir options image)) imagesInDir) of
              None \<Rightarrow> Pending
            | Some (Rejected e) \<Rightarrow> Rejects e
            | Some (Fulfilled allResults) \<Rightarrow> Returns allResults)"
proof -
  obtain tr1 where g: "getImagesFromDir env inputDir = (tr1, Inr allImages)"
    using assms(1) by (cases "getImagesFromDir env inputDir") auto
  have tr1: "tr1 = [ReadDir inputDir]"
    using fst_getImagesFromDir [of env inputDir] g by simp
  obtain tr2 where c: "createDir env outputDir = (tr2, None)"
    using assms(4) by (cases "createDir env outputDir") auto
  show ?thesis
    using assms(2,3)
    by (simp add: convertImages_def g c tr1 Let_def comp_def concat_fst_convertImage)
qed

lemma convertImages_empty:
  assumes "snd (getImagesFromDir env inputDir) = Inr allImages"
    and "filter (\<lambda>image. \<not> str_includes (name image) (format options)) allImages = []"
  shows "convertImages env sched inputDir outputDir options = ([ReadDir inputDir], Exit 0)"
proof -
  obtain tr1 where g: "getImagesFromDir env inputDir = (tr1, Inr allImages)"
    using assms(1) by (cases "getImagesFromDir env inputDir") auto
  have tr1: "tr1 = [ReadDir inputDir]"
    using fst_getImagesFromDir [of env inputDir] g by simp
  show ?thesis using assms(2) by (simp add: convertImages_def g tr1 Let_def)
qed

lemma convertImages_logs_nothing:
  "logged (fst (convertImages env sched inputDir outputDir options)) = []"
proof (cases "snd (getImagesFromDir env inputDir)")
  case (Inl e)
  then show ?thesis
    using fst_getImagesFromDir [of env inputDir]
    by (cases "getImagesFromDir env inputDir") (simp add: convertImages_def)
next
  case (Inr allImages)
  show ?thesis
  proof (cases "filter (\<lambda>image. \<not> str_includes (name image) (format options)) allImages = []")
    case True
    then show ?thesis using convertImages_empty [OF Inr True] by simp
  next
    case False
    obtain tr1 where g: "getImagesFromDir env inputDir = (tr1, Inr allImages)"
      using Inr by (cases "getImagesFromDir env inputDir") auto
    have tr1: "tr1 = [ReadDir inputDir]"
      using fst_getImagesFromDir [of env inputDir] g by simp
    show ?thesis
    proof (cases "snd (createDir env outputDir)")
      case None
      then show ?thesis
        using convertImages_nonempty [OF Inr refl False None, of sched]
        by (simp add: logged_append logged_Convert_map createDir_trace)
    next
      case (Some e)
      then obtain tr2 where c: "createDir env outputDir = (tr2, Some e)"
        by (cases "createDir env outputDir") auto
      have "logged tr2 = []" using createDir_trace [of env outputDir] c by simp
      then show ?thesis using False by (simp add: convertImages_def g c tr1 Let_def logged_append)
    qed
  qed
qed

lemma convertImages_reads_inputDir:
  "\<exists>tr. fst (convertImages env sched inputDir outputDir options) = ReadDir inputDir # tr"
  using fst_getImagesFromDir [of env inputDir]
  by (cases "getImagesFromDir env inputDir")
     (auto simp: convertImages_def Let_def split: sum.splits prod.splits option.splits)

lemma convertImages_mjs_reads_outputDir:
  "\<exists>tr. fst (convertImages_mjs env sched inputDir outputDir options) = ReadDir outputDir # tr"
  using fst_getImagesFromDir [of env outputDir]
  by (cases "getImagesFromDir env outputDir")
     (auto simp: convertImages_mjs_def Let_def split: sum.splits prod.splits option.splits)

lemma convertImages_mjs_nonempty:
  assumes "snd (getImagesFromDir env outputDir) = Inr allImages"
    and "filter (\<lambda>image. \<not> str_includes (name image) (format options)) allImages = imagesInDir"
    and "imagesInDir \<noteq> []"
  shows "convertImages_mjs env sched inputDir outputDir options =
           (ReadDir outputDir #
              map (\<lambda>image. Convert (path_resolve env (path image))
                     (path_join env outputDir (getFileName (name image) (format options)))) imagesInDir,
            case promise_all None sched (map (\<lambda>image. snd (conversion env outputDir options image)) imagesInDir) of
              None \<Rightarrow> Pending
            | Some (Rejected e) \<Rightarrow> Rejects e
            | Some (Fulfilled allResults) \<Rightarrow> Returns allResults)"
proof -
  obtain tr1 where g: "getImagesFromDir env outputDir = (tr1, Inr allImages)"
    using assms(1) by (cases "getImagesFromDir env outputDir") auto
  have tr1: "tr1 = [ReadDir outputDir]"
    using fst_getImagesFromDir [of env outputDir] g by simp
  show ?thesis
    using assms(2,3)
    by (simp add: convertImages_mjs_def g tr1 Let_def comp_def concat_fst_convertImage)
qed

lemma convertImages_mjs_empty:
  assumes "snd (getImagesFromDir env outputDir) = Inr allImages"
    and "filter (\<lambda>image. \<not> str_includes (name image) (format options)) allImages = []"
  shows "convertImages_mjs env sched inputDir outputDir options = ([ReadDir outputDir], Exit 0)"
proof -
  obtain tr1 where g: "getImagesFromDir env outputDir = (tr1, Inr allImages)"
    using assms(1) by (cases "getImagesFromDir env outputDir") auto
  have tr1: "tr1 = [ReadDir outputDir]"
    using fst_getImagesFromDir [of env outputDir] g by simp
  show ?thesis using assms(2) by (simp add: convertImages_mjs_def g tr1 Let_def)
qed

lemma convertImages_mjs_attempts_filtered:
  assumes "snd (getImagesFromDir env outputDir) = Inr allImages"
  shows "attempted (fst (convertImages_mjs env sched inputDir outputDir options)) =
           map (\<lambda>image. (path_resolve env (path image),
                          path_join env outputDir (getFileName (name image) (format options))))
             (filter (\<lambda>image. \<not> sublist (format options) (name image)) allImages)"
proof -
  define imagesInDir where
    "imagesInDir = filter (\<lambda>image. \<not> str_includes (name image) (format options)) allImages"
  have f: "filter (\<lambda>image. \<not> sublist (format options) (name image)) allImages = imagesInDir"
    by (simp add: imagesInDir_def str_includes_sublist)
  show ?thesis
  proof (cases "imagesInDir = []")
    case True
    then show ?thesis
      using convertImages_mjs_empty [OF assms(1), of options sched inputDir] f
      by (simp add: imagesInDir_def)
  next
    case False
    then show ?thesis
      using convertImages_mjs_nonempty [OF assms(1) imagesInDir_def [symmetric] False, of sched inputDir] f
      by (simp add: attempted_Convert_map)
  qed
qed

section \<open>The sample environment, evaluated\<close>

lemma sample_photos:
  "snd (getImagesFromDir sample_env ''photos'') =
     Inr [\<lparr>path = ''photos/a.jpg'', name = ''a.jpg'', ext = ''.jpg''\<rparr>,
          \<lparr>path = ''photos/b.png'', name = ''b.png'', ext = ''.png''\<rparr>,
          \<lparr>path = ''photos/png_source.jpg'', name = ''png_source.jpg'', ext = ''.jpg''\<rparr>,
          \<lparr>path = ''photos/bad.webp'', name = ''bad.webp'', ext = ''.webp''\<rparr>]"
  by code_simp

lemma sample_pngs:
  "snd (getImagesFromDir sample_env ''pngs'') =
     Inr [\<lparr>path = ''pngs/c.png'', name = ''c.png'', ext = ''.png''\<rparr>]"
  by code_simp

lemma sample_empty: "snd (getImagesFromDir sample_env ''empty'') = Inr []"
  by code_simp

lemma sample_createDir_out: "snd (createDir sample_env ''out'') = None"
  by (simp add: createDir_def sample_env_fields Let_def)

lemma sample_converter_webp: "getSharpConverter sample_env
      \<lparr>format = ''webp'', resize = False, quality = Finite 100, dimensions = ''None''\<rparr> = Inr [ToFormat ''webp'']"
  by (simp add: getSharpConverter_def sample_env_fields sharp_call_def sharp_def Let_def)

section \<open>The classifier (claims C3 and C10) and the output name (claim C6)\<close>

text \<open>
  Claim C3. \<^verbatim>\<open>isImageType(f)\<close> is true exactly when the canonical extension of \<open>f\<close> (what
  \<^verbatim>\<open>extname\<close> returns, with its leading dot) or the element at index 1 of the base name
  split on \<^verbatim>\<open>"."\<close> is, compared case-sensitively, one of \<^verbatim>\<open>webp\<close>, \<^verbatim>\<open>png\<close>, \<^verbatim>\<open>jpeg\<close>, \<^verbatim>\<open>jpg\<close>,
  \<^verbatim>\<open>avif\<close>. The function is total and has no effect; what matches neither is false:
  \<^verbatim>\<open>"a.png"\<close> is an image, \<^verbatim>\<open>"a.pngx"\<close>, \<^verbatim>\<open>"a.tar.gz"\<close> and \<^verbatim>\<open>"photo.PNG.bak"\<close> are not.
  The statement holds of every string, the empty one included.
\<close>

theorem isImageType_iff:
  "isImageType f =
     (extname f \<in> {''webp'', ''png'', ''jpeg'', ''jpg'', ''avif''} \<or>
      (\<exists>t. arr_at (js_split (basename f) CHR ''.'') 1 = Some t \<and>
           t \<in> {''webp'', ''png'', ''jpeg'', ''jpg'', ''avif''})) \<and>
   isImageType ''a.png'' \<and> \<not> isImageType ''a.pngx'' \<and>
   \<not> isImageType ''a.tar.gz'' \<and> \<not> isImageType ''photo.PNG.bak''"
proof -
  have general: "isImageType f =
     (extname f \<in> {''webp'', ''png'', ''jpeg'', ''jpg'', ''avif''} \<or>
      (\<exists>t. arr_at (js_split (basename f) CHR ''.'') 1 = Some t \<and>
           t \<in> {''webp'', ''png'', ''jpeg'', ''jpg'', ''avif''}))"
    by (auto simp add: isImageType_def Let_def array_includes_set supported_def)
  have e1: "isImageType ''a.png''" by code_simp
  have e2: "\<not> isImageType ''a.pngx''" by code_simp
  have e3: "\<not> isImageType ''a.tar.gz''" by code_simp
  have e4: "\<not> isImageType ''photo.PNG.bak''" by code_simp
  show ?thesis using general e1 e2 e3 e4 by blast
qed

text \<open>
  Claim C10. \<^verbatim>\<open>extname\<close> returns the empty string or a string that starts with a dot, and
  no member of the supported list does, so the disjunct \<^verbatim>\<open>supported.includes(ext)\<close> is
  false for every path: \<^verbatim>\<open>isImageType(p)\<close> is the check of \<^verbatim>\<open>basename(p).split(".")[1]\<close>
  alone.
\<close>

theorem isImageType_token_check_only:
  "(extname p = [] \<or> (\<exists>r. extname p = CHR ''.'' # r)) \<and>
   \<not> array_includes supported (Some (extname p)) \<and>
   isImageType p =
     (\<exists>t. arr_at (js_split (basename p) CHR ''.'') 1 = Some t \<and>
          t \<in> {''webp'', ''png'', ''jpeg'', ''jpg'', ''avif''})"
proof -
  have "isImageType p = array_includes supported (arr_at (js_split (basename p) CHR ''.'') 1)"
    by (simp add: isImageType_def Let_def extname_not_supported)
  also have "\<dots> = (\<exists>t. arr_at (js_split (basename p) CHR ''.'') 1 = Some t \<and>
          t \<in> {''webp'', ''png'', ''jpeg'', ''jpg'', ''avif''})"
    by (auto simp add: array_includes_set supported_def)
  finally show ?thesis
    using extname_dot [of p] extname_not_supported [of p] by blast
qed

text \<open>
  Claim C6. \<^verbatim>\<open>getFileName(file, format)\<close> is the part of the file name before its first dot
  (all of it when it has none), then a dot, then the format: \<^verbatim>\<open>photo.jpg\<close> becomes
  \<^verbatim>\<open>photo.webp\<close>, and \<^verbatim>\<open>my.photo.v2.png\<close> becomes \<^verbatim>\<open>my.jpg\<close>, the middle segments lost.
\<close>

theorem getFileName_first_segment:
  "getFileName f fmt = takeWhile (\<lambda>c. c \<noteq> CHR ''.'') f @ ''.'' @ fmt \<and>
   getFileName ''photo.jpg'' ''webp'' = ''photo.webp'' \<and>
   getFileName ''my.photo.v2.png'' ''jpg'' = ''my.jpg''"
proof -
  have general: "\<And>f fmt. getFileName f fmt = takeWhile (\<lambda>c. c \<noteq> CHR ''.'') f @ ''.'' @ fmt"
    by (simp add: getFileName_def arr_at_0_js_split del: js_split.simps)
  show ?thesis by (simp add: general)
qed

section \<open>The converter (claims C9 and C1)\<close>

text \<open>
  Claim C9. Two option records with the same format and both with \<^verbatim>\<open>resize\<close> false get
  the same converter from \<^verbatim>\<open>getSharpConverter\<close>, whatever their quality and dimensions:
  the one call \<^verbatim>\<open>sharp().toFormat(format)\<close>.
\<close>

theorem getSharpConverter_ignores_quality_dimensions:
  assumes "format o1 = format o2" and "\<not> resize o1" and "\<not> resize o2"
  shows "getSharpConverter env o1 = getSharpConverter env o2 \<and>
         getSharpConverter env o1 = sharp_call env sharp (ToFormat (format o1))"
  using assms by (simp add: getSharpConverter_def Let_def)

text \<open>Witness for claim C9: quality 65 and dimensions \<^verbatim>\<open>800x350\<close> against quality 100 and
  dimensions \<^verbatim>\<open>None\<close>, both without resize, both to AVIF.\<close>

theorem getSharpConverter_ignores_quality_dimensions_witness:
  "getSharpConverter sample_env
      \<lparr>format = ''avif'', resize = False, quality = Finite 65, dimensions = ''800x350''\<rparr> =
   getSharpConverter sample_env
      \<lparr>format = ''avif'', resize = False, quality = Finite 100, dimensions = ''None''\<rparr> \<and>
   getSharpConverter sample_env
      \<lparr>format = ''avif'', resize = False, quality = Finite 65, dimensions = ''800x350''\<rparr> =
   Inr [ToFormat ''avif'']"
  using getSharpConverter_ignores_quality_dimensions
    [of "\<lparr>format = ''avif'', resize = False, quality = Finite 65, dimensions = ''800x350''\<rparr>"
        "\<lparr>format = ''avif'', resize = False, quality = Finite 100, dimensions = ''None''\<rparr>"
        sample_env]
  by (auto simp add: sharp_call_def sharp_def sample_env_fields)

text \<open>
  Claim C1, as stated, says that \<^verbatim>\<open>convertImage\<close> never rejects. It does when the converter
  cannot be built: \<^verbatim>\<open>getSharpConverter\<close> is called before the \<^verbatim>\<open>try\<close> block. With \<^verbatim>\<open>resize\<close>
  true and the dimensions \<^verbatim>\<open>"None"\<close> (what the prompt passes when the user asks for a resize
  and keeps the default), the width is \<^verbatim>\<open>Number("None")\<close>, not a number, the \<^verbatim>\<open>resize\<close> call of
  the image library throws, and the promise of \<^verbatim>\<open>convertImage\<close> is rejected.
\<close>

theorem convertImage_rejects_when_converter_throws:
  "snd (convertImage sample_env ''/home/user/photos/a.jpg'' ''out/a.webp''
      \<lparr>format = ''webp'', resize = True, quality = Finite 100, dimensions = ''None''\<rparr>)
   = Rejected ''Expected positive integer for width''"
  by (simp add: convertImage_def getSharpConverter_def sample_env_fields sharp_call_def sharp_def
      Let_def arr_at_def number_or_100_def sample_Number_def is_digit_def)

text \<open>
  Claim C1, amended. Whenever the two streams and the converter are built without a
  throw, \<^verbatim>\<open>convertImage\<close> is fulfilled, never rejected: with the error the pipeline failed
  with, or with \<^verbatim>\<open>undefined\<close> when the pipeline succeeded.
\<close>

theorem convertImage_captures_pipeline_outcome:
  assumes "createReadStream env inputFile = None"
    and "createWriteStream env outputFile = None"
    and "getSharpConverter env options = Inr duplex"
  shows "snd (convertImage env inputFile outputFile options) =
           Fulfilled (pipeline env inputFile duplex outputFile)"
  using assms by (simp add: convertImage_def split: option.splits)

text \<open>Witness for claim C1: the pipeline of \<^verbatim>\<open>bad.webp\<close> fails, and the task is fulfilled
  with the error.\<close>

theorem convertImage_captures_pipeline_outcome_witness:
  "snd (convertImage sample_env ''/home/user/photos/bad.webp'' ''out/bad.png''
      \<lparr>format = ''webp'', resize = False, quality = Finite 100, dimensions = ''None''\<rparr>)
   = Fulfilled (Some ''Input file contains unsupported image format'')"
proof -
  have 1: "createReadStream sample_env ''/home/user/photos/bad.webp'' = None"
    by (simp add: sample_env_fields)
  have 2: "createWriteStream sample_env ''out/bad.png'' = None"
    by (simp add: sample_env_fields)
  show ?thesis
    using convertImage_captures_pipeline_outcome [OF 1 2 sample_converter_webp]
    by (simp add: sample_env_fields)
qed

section \<open>The orchestrator (claims C4, C2, C7 and C5)\<close>




text \<open>
  Claim C2, as stated, speaks of every filtered list. For the empty one \<^verbatim>\<open>convertImages\<close>
  returns no sequence at all: it ends the process with \<^verbatim>\<open>process.exit(0)\<close>.
\<close>

theorem convertImages_empty_list_does_not_return:
  "snd (convertImages sample_env [] ''empty'' ''out''
      \<lparr>format = ''webp'', resize = False, quality = Finite 100, dimensions = ''None''\<rparr>) = Exit 0"
  by (simp add: convertImages_empty [OF sample_empty])

text \<open>
  Claim C2, amended. For a filtered list that is not empty, once the output directory is
  ensured, and when every conversion task is fulfilled (none is rejected, each settles
  once, in any order \<open>sched\<close>), \<^verbatim>\<open>convertImages\<close> returns a sequence as long as the filtered
  list whose entry at position \<open>i\<close> is the value the task of the image at position \<open>i\<close> was
  fulfilled with: nothing (\<^term>\<open>None\<close>) or the captured error.
\<close>

theorem convertImages_results_aligned:
  assumes "snd (getImagesFromDir env inputDir) = Inr allImages"
    and "imagesInDir = filter (\<lambda>image. \<not> str_includes (name image) (format options)) allImages"
    and "imagesInDir \<noteq> []"
    and "snd (createDir env outputDir) = None"
    and "distinct sched" and "set sched = {..<length imagesInDir}"
    and "\<forall>image\<in>set imagesInDir. \<exists>v. snd (conversion env outputDir options image) = Fulfilled v"
  shows "\<exists>rs. snd (convertImages env sched inputDir outputDir options) = Returns rs \<and>
              length rs = length imagesInDir \<and>
              (\<forall>i<length imagesInDir.
                 snd (conversion env outputDir options (imagesInDir ! i)) = Fulfilled (rs ! i))"
proof -
  define ps where "ps = map (\<lambda>image. snd (conversion env outputDir options image)) imagesInDir"
  define rs where "rs = map (\<lambda>p. case p of Fulfilled v \<Rightarrow> v | Rejected e \<Rightarrow> None) ps"
  have len: "length ps = length imagesInDir" "length rs = length ps"
    by (simp_all add: ps_def rs_def)
  have ful: "\<forall>k<length ps. ps ! k = Fulfilled (rs ! k)"
  proof (intro allI impI)
    fix k assume k: "k < length ps"
    then have "imagesInDir ! k \<in> set imagesInDir" using len by simp
    then obtain v where "snd (conversion env outputDir options (imagesInDir ! k)) = Fulfilled v"
      using assms(7) by blast
    then show "ps ! k = Fulfilled (rs ! k)" using k len by (simp add: ps_def rs_def)
  qed
  have sched: "set sched = {..<length ps}"
    using assms(6) len by simp
  have "promise_all None sched ps = Some (Fulfilled rs)"
    by (rule promise_all_fulfilled [OF assms(5) sched len(2) ful])
  then have "snd (convertImages env sched inputDir outputDir options) = Returns rs"
    using convertImages_nonempty [OF assms(1) assms(2) [symmetric] assms(3,4), of sched]
    by (simp add: ps_def)
  moreover have "\<forall>i<length imagesInDir.
      snd (conversion env outputDir options (imagesInDir ! i)) = Fulfilled (rs ! i)"
    using ful len by (simp add: ps_def)
  ultimately show ?thesis using len by auto
qed

text \<open>Witness for claim C2: the two tasks of \<^verbatim>\<open>photos\<close> settle in the order 1, 0; the result
  has the success of \<^verbatim>\<open>a.jpg\<close> first and the error of \<^verbatim>\<open>bad.webp\<close> second.\<close>

theorem convertImages_results_aligned_witness:
  "\<exists>rs. snd (convertImages sample_env [1, 0] ''photos'' ''out''
            \<lparr>format = ''png'', resize = False, quality = Finite 100, dimensions = ''None''\<rparr>) = Returns rs \<and>
        length rs = 2 \<and> rs ! 0 = None \<and>
        rs ! 1 = Some ''Input file contains unsupported image format''"
proof -
  define options :: "jsnum FormatOpts" where
    "options = \<lparr>format = ''png'', resize = False, quality = Finite 100, dimensions = ''None''\<rparr>"
  define imagesInDir where
    "imagesInDir = [\<lparr>path = ''photos/a.jpg'', name = ''a.jpg'', ext = ''.jpg''\<rparr>,
                    \<lparr>path = ''photos/bad.webp'', name = ''bad.webp'', ext = ''.webp''\<rparr>]"
  have conv: "getSharpConverter sample_env options = Inr [ToFormat ''png'']"
    by (simp add: options_def getSharpConverter_def sample_env_fields sharp_call_def sharp_def Let_def)
  have t0: "snd (conversion sample_env ''out'' options (imagesInDir ! 0)) = Fulfilled None"
    by (simp add: imagesInDir_def convertImage_def conv sample_env_fields)
  have t1: "snd (conversion sample_env ''out'' options (imagesInDir ! 1)) =
              Fulfilled (Some ''Input file contains unsupported image format'')"
    by (simp add: imagesInDir_def convertImage_def conv sample_env_fields)
  have 2: "imagesInDir = filter (\<lambda>image. \<not> str_includes (name image) (format options))
      [\<lparr>path = ''photos/a.jpg'', name = ''a.jpg'', ext = ''.jpg''\<rparr>,
       \<lparr>path = ''photos/b.png'', name = ''b.png'', ext = ''.png''\<rparr>,
       \<lparr>path = ''photos/png_source.jpg'', name = ''png_source.jpg'', ext = ''.jpg''\<rparr>,
       \<lparr>path = ''photos/bad.webp'', name = ''bad.webp'', ext = ''.webp''\<rparr>]"
    by (simp add: imagesInDir_def options_def)
  have 3: "imagesInDir \<noteq> []"
    by (simp add: imagesInDir_def)
  have 5: "distinct [1, 0 :: nat]"
    by simp
  have 6: "set [1, 0 :: nat] = {..<length imagesInDir}"
    by (auto simp: imagesInDir_def)
  have 7: "\<forall>image\<in>set imagesInDir. \<exists>v. snd (conversion sample_env ''out'' options image) = Fulfilled v"
    using t0 t1 by (simp add: imagesInDir_def)
  obtain rs where rs: "snd (convertImages sample_env [1, 0] ''photos'' ''out'' options) = Returns rs"
    "length rs = length imagesInDir"
    "\<forall>i<length imagesInDir. snd (conversion sample_env ''out'' options (imagesInDir ! i)) = Fulfilled (rs ! i)"
    using convertImages_results_aligned [OF sample_photos 2 3 sample_createDir_out 5 6 7] by blast
  have l: "0 < length imagesInDir" "1 < length imagesInDir"
    by (simp_all add: imagesInDir_def)
  have "snd (conversion sample_env ''out'' options (imagesInDir ! 0)) = Fulfilled (rs ! 0)"
    using rs(3) l(1) by blast
  then have r0: "rs ! 0 = None"
    using t0 by simp
  have "snd (conversion sample_env ''out'' options (imagesInDir ! 1)) = Fulfilled (rs ! 1)"
    using rs(3) l(2) by blast
  then have r1: "rs ! 1 = Some ''Input file contains unsupported image format''"
    using t1 by simp
  have "length rs = 2"
    using rs(2) by (simp add: imagesInDir_def)
  then show ?thesis
    using rs(1) r0 r1 unfolding options_def by blast
qed

text \<open>With a resize asked and the default dimensions, every task is rejected before its
  pipeline starts, and so is the run: the images are not converted.\<close>

lemma convertImages_rejects_when_converter_throws:
  "convertImages sample_env [1, 0] ''photos'' ''out''
      \<lparr>format = ''png'', resize = True, quality = Finite 100, dimensions = ''None''\<rparr> =
   ([ReadDir ''photos'', Access ''/home/user/out'', Mkdir ''/home/user/out'',
     Convert ''/home/user/photos/a.jpg'' ''out/a.png'',
     Convert ''/home/user/photos/bad.webp'' ''out/bad.png''],
    Rejects ''Expected positive integer for width'')"
  by code_simp

text \<open>
  Claim C7. With no image left after the filter, \<^verbatim>\<open>convertImages\<close> makes no conversion and
  ends the process with exit code 0, but it reports nothing: the two messages are built
  with \<^verbatim>\<open>chalk.red.bold\<close> and never passed to \<^verbatim>\<open>log\<close>. In \<^verbatim>\<open>pngs\<close>, whose one image is already
  a PNG, the run reads the directory and exits; its trace has no \<^term>\<open>Log\<close> event.
\<close>

theorem convertImages_no_images_prints_nothing:
  "convertImages sample_env [] ''pngs'' ''out''
      \<lparr>format = ''png'', resize = False, quality = Finite 100, dimensions = ''None''\<rparr> =
   ([ReadDir ''pngs''], Exit 0)"
  by (rule convertImages_empty [OF sample_pngs]) simp

text \<open>
  Claim C5. The orchestrator of the TypeScript source scans the input directory
  (\<open>convertImages_reads_inputDir\<close>); the one of the compiled build scans the output
  directory. Asked to convert \<^verbatim>\<open>photos\<close> into the empty directory \<^verbatim>\<open>empty\<close>, the build reads
  \<^verbatim>\<open>empty\<close>, finds no image and exits, and \<^verbatim>\<open>photos\<close> is never read.
\<close>

theorem convertImages_mjs_scans_outputDir:
  "convertImages_mjs sample_env [0, 1, 2] ''photos'' ''empty''
      \<lparr>format = ''webp'', resize = False, quality = Finite 100, dimensions = ''None''\<rparr> =
   ([ReadDir ''empty''], Exit 0)"
  by code_simp

text \<open>The source, on the same input, converts the three images of \<^verbatim>\<open>photos\<close> that are not
  WebP already.\<close>

lemma convertImages_same_input:
  "convertImages sample_env [0, 1, 2] ''photos'' ''empty''
      \<lparr>format = ''webp'', resize = False, quality = Finite 100, dimensions = ''None''\<rparr> =
   ([ReadDir ''photos'', Access ''/home/user/empty'',
     Convert ''/home/user/photos/a.jpg'' ''empty/a.webp'',
     Convert ''/home/user/photos/b.png'' ''empty/b.webp'',
     Convert ''/home/user/photos/png_source.jpg'' ''empty/png_source.webp''],
    Returns [None, None, None])"
  by code_simp

section \<open>The prompt session (claim C8)\<close>

text \<open>
  Claim C8, as stated, has a whitespace-only output path replaced by the input
  directory. \<^verbatim>\<open>!outputPath\<close> is true of the empty string only: an output path of one space
  is kept as it is.
\<close>

theorem promptUser_whitespace_output_kept:
  "snd (promptUser
          (Fulfilled \<lparr>inputPath = ''photos'', outputPath = '' '', format_ans = ''webp'',
                      resize_ans = False\<rparr>)
          (Rejected ''not asked'')) =
   Returns \<lparr>inputPath = ''photos'', outputPath = '' '', format_ans = ''webp'', resize_ans = False,
             quality_ans = ''100%'', dimensions_ans = ''None''\<rparr>"
  by (simp add: promptUser_def)

text \<open>
  Claim C8, amended. When the prompt session is not aborted, the output directory of the
  answers is the input directory if the output path entered is empty, and the path
  entered, unchanged, if it is not empty (a whitespace-only path included); the input
  directory is the one entered.
\<close>

theorem promptUser_output_directory:
  assumes "\<not> resize_ans b \<or> (\<exists>x. extraPrompt = Fulfilled x)"
  shows "\<exists>a. snd (promptUser (Fulfilled b) extraPrompt) = Returns a \<and>
             outputPath a = (if outputPath b = [] then inputPath b else outputPath b) \<and>
             inputPath a = inputPath b"
  using assms by (auto simp: promptUser_def Let_def)

text \<open>Witness for claim C8: an empty output path, with no resize asked.\<close>

theorem promptUser_output_directory_witness:
  "\<exists>a. snd (promptUser
              (Fulfilled \<lparr>inputPath = ''photos'', outputPath = [], format_ans = ''webp'',
                          resize_ans = False\<rparr>)
              (Rejected ''not asked'')) = Returns a \<and>
        outputPath a = ''photos'' \<and> inputPath a = ''photos''"
  using promptUser_output_directory
    [of "\<lparr>inputPath = ''photos'', outputPath = [], format_ans = ''webp'', resize_ans = False\<rparr>"
        "Rejected ''not asked''"]
  by simp

end
